theory Spec2Isabelle
  imports Main "HOL-Library.Log_Nat"
begin

section \<open>Energinet Data Service tool server (server.py)\<close>

text \<open>
  The server offers six tools. Each builds a query-parameter dictionary from its typed
  arguments, performs one HTTP GET through \<open>make_api_request\<close> and renders the decoded JSON
  body as text. The network is the only effect; it is modelled as what opening and
  closing the HTTP client raise, if anything, and a function from the request (URL and
  parameters) to what \<open>client.get\<close> does for it.
\<close>

subsection \<open>Query parameters\<close>

text \<open>
  A query-parameter value is the clamped limit or the offset (Python \<open>int\<close>) or one of the
  text arguments. The parameter dictionary is an insertion-ordered association list;
  \<open>dict_set\<close> is the assignment \<open>params[k] = v\<close>.
\<close>

datatype param = PInt int | PStr string

type_synonym params = "(string \<times> param) list"

fun dict_set :: "'k \<Rightarrow> 'v \<Rightarrow> ('k \<times> 'v) list \<Rightarrow> ('k \<times> 'v) list" where
  "dict_set k v [] = [(k, v)]"
| "dict_set k v ((k', v') # d) = (if k' = k then (k, v) # d else (k', v') # dict_set k v d)"

text \<open>
  An argument of type \<open>str | None\<close> is a \<open>string option\<close>. The test \<open>if start:\<close> holds for
  a non-empty text only: \<open>None\<close> and the empty text are both falsy.
\<close>

fun truthy_arg :: "string option \<Rightarrow> bool" where
  "truthy_arg None = False"
| "truthy_arg (Some s) = (s \<noteq> [])"

text \<open>\<open>if arg: params[k] = arg\<close>\<close>

definition set_if_given :: "string \<Rightarrow> string option \<Rightarrow> params \<Rightarrow> params" where
  "set_if_given k arg ps =
     (case arg of None \<Rightarrow> ps | Some s \<Rightarrow> if truthy_arg (Some s) then dict_set k (PStr s) ps else ps)"

text \<open>The f-string \<open>'"PriceArea" = "{price_area}"'\<close>.\<close>

definition price_area_filter :: "string \<Rightarrow> string" where
  "price_area_filter price_area =
     [CHR 0x22] @ ''PriceArea'' @ [CHR 0x22] @ '' = '' @ [CHR 0x22] @ price_area @ [CHR 0x22]"

text \<open>The parameter dictionary of \<open>query_dataset\<close> (lines 163 to 178).\<close>

definition query_dataset_params ::
  "int \<Rightarrow> int \<Rightarrow> string option \<Rightarrow> string option \<Rightarrow> string option \<Rightarrow> string option \<Rightarrow>
   string option \<Rightarrow> params" where
  "query_dataset_params limit offset start end filter' columns sort' =
     (let params = [(''limit'', PInt (min limit 100))];
          params = (if offset > 0 then dict_set ''offset'' (PInt offset) params else params);
          params = set_if_given ''start'' start params;
          params = set_if_given ''end'' end params;
          params = set_if_given ''filter'' filter' params;
          params = set_if_given ''columns'' columns params;
          params = set_if_given ''sort'' sort' params
      in params)"

text \<open>The parameter dictionary of \<open>get_electricity_prices\<close> (lines 219 to 229).\<close>

definition get_electricity_prices_params ::
  "string \<Rightarrow> int \<Rightarrow> string option \<Rightarrow> string option \<Rightarrow> params" where
  "get_electricity_prices_params price_area limit start end =
     (let params = [(''limit'', PInt (min limit 100)),
                    (''filter'', PStr (price_area_filter price_area)),
                    (''sort'', PStr ''HourUTC DESC''),
                    (''columns'', PStr ''HourUTC,HourDK,PriceArea,SpotPriceDKK,SpotPriceEUR'')];
          params = set_if_given ''start'' start params;
          params = set_if_given ''end'' end params
      in params)"

text \<open>The parameter dictionary of \<open>get_co2_emissions\<close> (lines 279 to 287).\<close>

definition get_co2_emissions_params :: "int \<Rightarrow> string option \<Rightarrow> string option \<Rightarrow> params" where
  "get_co2_emissions_params limit start end =
     (let params = [(''limit'', PInt (min limit 100)), (''sort'', PStr ''Minutes5UTC DESC'')];
          params = set_if_given ''start'' start params;
          params = set_if_given ''end'' end params
      in params)"

text \<open>The parameter dictionary of \<open>get_production_consumption\<close> (lines 335 to 345).\<close>

definition get_production_consumption_params ::
  "string option \<Rightarrow> int \<Rightarrow> string option \<Rightarrow> string option \<Rightarrow> params" where
  "get_production_consumption_params price_area limit start end =
     (let params = [(''limit'', PInt (min limit 100)), (''sort'', PStr ''HourUTC DESC'')];
          params = (case price_area of None \<Rightarrow> params
                    | Some a \<Rightarrow> if truthy_arg (Some a)
                        then dict_set ''filter'' (PStr (price_area_filter a)) params else params);
          params = set_if_given ''start'' start params;
          params = set_if_given ''end'' end params
      in params)"

subsection \<open>Python values\<close>

text \<open>
  A Python \<open>float\<close> is an IEEE binary64 number: a finite value (kept as the exact rational it
  denotes; \<open>Finite 0\<close> is \<open>+0.0\<close>), negative zero, an infinity or a NaN.
\<close>

datatype pyfloat = Finite rat | NegZero | PosInf | NegInf | NaN

text \<open>
  The objects that \<open>response.json()\<close> produces: \<open>None\<close>, \<open>bool\<close>, \<open>int\<close> (unbounded),
  \<open>float\<close>, \<open>str\<close>, \<open>list\<close> and \<open>dict\<close> (insertion-ordered, one value per key). A \<open>char\<close>
  stands for one character of a Python text.
\<close>

datatype pyval =
    VNone
  | VBool bool
  | VInt int
  | VFloat pyfloat
  | VStr string
  | VList "pyval list"
  | VDict "(string \<times> pyval) list"

text \<open>
  The exceptions that leave a function: those that the tools' own code raises on a body
  of unexpected shape or size, and \<open>ClientError\<close> for whatever the HTTP client raises
  outside the \<open>try\<close> block of \<open>make_api_request\<close> (with the text of that exception).
\<close>

datatype py_error =
    TypeError
  | AttributeError
  | ValueError
  | OverflowError
  | KeyError
  | ClientError string

definition andthen :: "'e + 'a \<Rightarrow> ('a \<Rightarrow> 'e + 'b) \<Rightarrow> 'e + 'b" where
  "andthen m f = (case m of Inl e \<Rightarrow> Inl e | Inr x \<Rightarrow> f x)"

text \<open>A \<open>for\<close> loop that appends one result per element and stops at the first exception.\<close>

fun for_each :: "('a \<Rightarrow> 'e + 'b) \<Rightarrow> 'a list \<Rightarrow> 'e + 'b list" where
  "for_each f [] = Inr []"
| "for_each f (x # xs) = andthen (f x) (\<lambda>y. andthen (for_each f xs) (\<lambda>ys. Inr (y # ys)))"

text \<open>
  An f-string: its parts are evaluated from left to right, a literal part as \<open>Inr\<close> of
  its text, and the first part that raises ends the evaluation.
\<close>

fun fstring :: "('e + string) list \<Rightarrow> 'e + string" where
  "fstring [] = Inr []"
| "fstring (part # parts) = andthen part (\<lambda>s. andthen (fstring parts) (\<lambda>rest. Inr (s @ rest)))"

text \<open>\<open>sep.join(parts)\<close>\<close>

fun join :: "string \<Rightarrow> string list \<Rightarrow> string" where
  "join sep [] = []"
| "join sep [x] = x"
| "join sep (x # y # ys) = x @ sep @ join sep (y # ys)"

subsubsection \<open>Decimal text of integers\<close>

text \<open>The decimal digits of a non-negative integer.\<close>

definition digit_char :: "int \<Rightarrow> char" where
  "digit_char d = ''0123456789'' ! nat d"

function str_digits :: "int \<Rightarrow> string" where
  "str_digits n =
     (if n < 10 then [digit_char n] else str_digits (n div 10) @ [digit_char (n mod 10)])"
  by pat_completeness auto
termination
  by (relation "measure nat") auto

declare str_digits.simps [simp del]

text \<open>
  \<open>str(i)\<close> for a Python \<open>int\<close>. The conversion raises \<open>ValueError\<close> for an integer of more
  digits than \<open>sys.int_info.default_max_str_digits\<close>, which is 4300.
\<close>

definition int_max_str_digits :: nat where
  "int_max_str_digits = 4300"

definition str_int :: "int \<Rightarrow> py_error + string" where
  "str_int i =
     (let digits = str_digits \<bar>i\<bar>
      in if int_max_str_digits < length digits then Inl ValueError
         else Inr (if i < 0 then CHR ''-'' # digits else digits))"

subsubsection \<open>Floats: rounding, addition, fixed-point formatting\<close>

definition pow2 :: "int \<Rightarrow> rat" where
  "pow2 e = (if 0 \<le> e then of_int (2 ^ nat e) else 1 / of_int (2 ^ nat (- e)))"

text \<open>Rounding to the nearest integer, ties to the even one.\<close>

definition round_half_even :: "rat \<Rightarrow> int" where
  "round_half_even x =
     (let f = \<lfloor>x\<rfloor>; d = x - of_int f
      in if d < 1 / 2 then f else if 1 / 2 < d then f + 1 else if even f then f else f + 1)"

text \<open>\<open>ilog2 a\<close> is the integer \<open>k\<close> with \<open>2^k \<le> a < 2^(k+1)\<close>, for positive \<open>a\<close>.\<close>

definition ilog2 :: "rat \<Rightarrow> int" where
  "ilog2 a = (let (p, d) = quotient_of a; k = bitlen p - bitlen d
              in if pow2 k \<le> a then k else k - 1)"

text \<open>
  The binary64 number nearest to a rational (ties to even): 53 significant bits, least
  exponent \<open>-1074\<close>; the largest finite value is \<open>(2^53 - 1) * 2^971\<close>, and what rounds
  beyond it is an infinity. This is what reading a decimal literal, converting an \<open>int\<close>
  and every float operation do with the exact result.
\<close>

definition round_double :: "rat \<Rightarrow> pyfloat" where
  "round_double q =
     (if q = 0 then Finite 0
      else let a = \<bar>q\<bar>;
               e = max (ilog2 a - 52) (- 1074)
           in if 971 < e then (if q < 0 then NegInf else PosInf)
              else let m = round_half_even (a / pow2 e)
                   in if e = 971 \<and> 2 ^ 53 \<le> m then (if q < 0 then NegInf else PosInf)
                      else if m = 0 then (if q < 0 then NegZero else Finite 0)
                      else Finite ((if q < 0 then - 1 else 1) * of_int m * pow2 e))"


text \<open>\<open>float(n)\<close> for an \<open>int\<close>: correctly rounded, \<open>OverflowError\<close> beyond the float range.\<close>

definition float_of_int :: "int \<Rightarrow> py_error + pyfloat" where
  "float_of_int n =
     (case round_double (of_int n) of
        PosInf \<Rightarrow> Inl OverflowError
      | NegInf \<Rightarrow> Inl OverflowError
      | x \<Rightarrow> Inr x)"

fun float_add :: "pyfloat \<Rightarrow> pyfloat \<Rightarrow> pyfloat" where
  "float_add NaN y = NaN"
| "float_add x NaN = NaN"
| "float_add PosInf NegInf = NaN"
| "float_add NegInf PosInf = NaN"
| "float_add PosInf y = PosInf"
| "float_add x PosInf = PosInf"
| "float_add NegInf y = NegInf"
| "float_add x NegInf = NegInf"
| "float_add NegZero y = y"
| "float_add x NegZero = x"
| "float_add (Finite a) (Finite b) = (if a + b = 0 then Finite 0 else round_double (a + b))"

text \<open>
  The format specification \<open>.\<close>\<open>prec\<close>\<open>f\<close> on a float: the exact binary value, rounded to
  \<open>prec\<close> decimals (ties to even), with the sign of the value kept also when the digits
  are all zero. The digit limit of \<open>str\<close> does not apply to it.
\<close>

definition fixed_digits :: "nat \<Rightarrow> rat \<Rightarrow> string" where
  "fixed_digits prec a =
     (let n = round_half_even (a * 10 ^ prec);
          frac = str_digits (n mod 10 ^ prec)
      in str_digits (n div 10 ^ prec) @
         (if prec = 0 then [] else ''.'' @ replicate (prec - length frac) CHR ''0'' @ frac))"

fun format_float :: "nat \<Rightarrow> pyfloat \<Rightarrow> string" where
  "format_float prec (Finite q) = (if q < 0 then ''-'' else []) @ fixed_digits prec \<bar>q\<bar>"
| "format_float prec NegZero = ''-'' @ fixed_digits prec 0"
| "format_float prec PosInf = ''inf''"
| "format_float prec NegInf = ''-inf''"
| "format_float prec NaN = ''nan''"

subsubsection \<open>Operations on dynamically typed values\<close>

text \<open>Truth value of an object, as tested by \<open>if not x\<close> and \<open>x or 0\<close>.\<close>

fun py_truthy :: "pyval \<Rightarrow> bool" where
  "py_truthy VNone = False"
| "py_truthy (VBool b) = b"
| "py_truthy (VInt n) = (n \<noteq> 0)"
| "py_truthy (VFloat x) = (x \<noteq> Finite 0 \<and> x \<noteq> NegZero)"
| "py_truthy (VStr s) = (s \<noteq> [])"
| "py_truthy (VList xs) = (xs \<noteq> [])"
| "py_truthy (VDict kvs) = (kvs \<noteq> [])"

text \<open>\<open>x or y\<close>\<close>

definition py_or :: "pyval \<Rightarrow> pyval \<Rightarrow> pyval" where
  "py_or x y = (if py_truthy x then x else y)"

fun is_substring :: "'a list \<Rightarrow> 'a list \<Rightarrow> bool" where
  "is_substring xs [] = (xs = [])"
| "is_substring xs (y # ys) = (take (length xs) (y # ys) = xs \<or> is_substring xs ys)"

text \<open>\<open>k in x\<close> for a text \<open>k\<close>: key of a dict, part of a text, element of a list.\<close>

fun py_contains :: "string \<Rightarrow> pyval \<Rightarrow> py_error + bool" where
  "py_contains k (VDict kvs) = Inr (k \<in> set (map fst kvs))"
| "py_contains k (VStr s) = Inr (is_substring k s)"
| "py_contains k (VList xs) = Inr (VStr k \<in> set xs)"
| "py_contains k v = Inl TypeError"

text \<open>\<open>x[k]\<close> for a text \<open>k\<close>\<close>

fun py_getitem :: "pyval \<Rightarrow> string \<Rightarrow> py_error + pyval" where
  "py_getitem (VDict kvs) k = (case map_of kvs k of None \<Rightarrow> Inl KeyError | Some v \<Rightarrow> Inr v)"
| "py_getitem v k = Inl TypeError"

text \<open>\<open>x.get(k, dflt)\<close>: only a dict has the method.\<close>

fun py_get :: "pyval \<Rightarrow> string \<Rightarrow> pyval \<Rightarrow> py_error + pyval" where
  "py_get (VDict kvs) k dflt = Inr (case map_of kvs k of None \<Rightarrow> dflt | Some v \<Rightarrow> v)"
| "py_get v k dflt = Inl AttributeError"

text \<open>\<open>x.items()\<close>\<close>

fun py_items :: "pyval \<Rightarrow> py_error + (string \<times> pyval) list" where
  "py_items (VDict kvs) = Inr kvs"
| "py_items v = Inl AttributeError"

text \<open>\<open>len(x)\<close>\<close>

fun py_len :: "pyval \<Rightarrow> py_error + nat" where
  "py_len (VList xs) = Inr (length xs)"
| "py_len (VStr s) = Inr (length s)"
| "py_len (VDict kvs) = Inr (length kvs)"
| "py_len v = Inl TypeError"

text \<open>The elements that \<open>for y in x\<close> visits.\<close>

fun py_iter :: "pyval \<Rightarrow> py_error + pyval list" where
  "py_iter (VList xs) = Inr xs"
| "py_iter (VStr s) = Inr (map (\<lambda>c. VStr [c]) s)"
| "py_iter (VDict kvs) = Inr (map (\<lambda>kv. VStr (fst kv)) kvs)"
| "py_iter v = Inl TypeError"

text \<open>
  The slice \<open>xs[:n]\<close>: the first \<open>n\<close> elements, and for a negative \<open>n\<close> all but the last
  \<open>-n\<close>. A dict cannot be sliced (\<open>TypeError\<close>; Python 3.12 reports \<open>KeyError\<close> instead).
\<close>

definition slice_to :: "'a list \<Rightarrow> int \<Rightarrow> 'a list" where
  "slice_to xs n = (if 0 \<le> n then take (nat n) xs else take (length xs - nat (- n)) xs)"

fun py_slice_to :: "pyval \<Rightarrow> int \<Rightarrow> py_error + pyval" where
  "py_slice_to (VList xs) n = Inr (VList (slice_to xs n))"
| "py_slice_to (VStr s) n = Inr (VStr (slice_to s n))"
| "py_slice_to v n = Inl TypeError"

text \<open>
  \<open>str(x)\<close>, which is what \<open>f"{x}"\<close> inserts. The text of a float (the shortest digits
  that read back as the same float) and of a list or dict is Python's \<open>repr\<close>, which can
  raise as \<open>str\<close> of an \<open>int\<close> can; it is a parameter \<open>repr\<close> of the model, and every result
  below holds whatever it is.
\<close>

type_synonym repr = "pyval \<Rightarrow> py_error + string"

fun py_str :: "repr \<Rightarrow> pyval \<Rightarrow> py_error + string" where
  "py_str repr (VStr s) = Inr s"
| "py_str repr VNone = Inr ''None''"
| "py_str repr (VBool b) = Inr (if b then ''True'' else ''False'')"
| "py_str repr (VInt n) = str_int n"
| "py_str repr v = repr v"

text \<open>\<open>isinstance(x, (int, float))\<close>; a \<open>bool\<close> is an \<open>int\<close>.\<close>

fun is_int_or_float :: "pyval \<Rightarrow> bool" where
  "is_int_or_float (VInt n) = True"
| "is_int_or_float (VBool b) = True"
| "is_int_or_float (VFloat x) = True"
| "is_int_or_float v = False"

text \<open>
  \<open>f"{x:.1f}"\<close> and \<open>f"{x:.2f}"\<close>: an \<open>int\<close> is converted to a float first, a text does not
  know the format code (\<open>ValueError\<close>), other objects accept no format specification.
\<close>

fun py_format_f :: "nat \<Rightarrow> pyval \<Rightarrow> py_error + string" where
  "py_format_f prec (VFloat x) = Inr (format_float prec x)"
| "py_format_f prec (VInt n) = andthen (float_of_int n) (\<lambda>x. Inr (format_float prec x))"
| "py_format_f prec (VBool b) =
     andthen (float_of_int (if b then 1 else 0)) (\<lambda>x. Inr (format_float prec x))"
| "py_format_f prec (VStr s) = Inl ValueError"
| "py_format_f prec v = Inl TypeError"

text \<open>\<open>x + y\<close>\<close>

fun py_add :: "pyval \<Rightarrow> pyval \<Rightarrow> py_error + pyval" where
  "py_add (VInt a) (VInt b) = Inr (VInt (a + b))"
| "py_add (VInt a) (VBool b) = Inr (VInt (a + (if b then 1 else 0)))"
| "py_add (VBool a) (VInt b) = Inr (VInt ((if a then 1 else 0) + b))"
| "py_add (VBool a) (VBool b) = Inr (VInt ((if a then 1 else 0) + (if b then 1 else 0)))"
| "py_add (VInt a) (VFloat y) = andthen (float_of_int a) (\<lambda>x. Inr (VFloat (float_add x y)))"
| "py_add (VBool a) (VFloat y) =
     andthen (float_of_int (if a then 1 else 0)) (\<lambda>x. Inr (VFloat (float_add x y)))"
| "py_add (VFloat x) (VInt b) = andthen (float_of_int b) (\<lambda>y. Inr (VFloat (float_add x y)))"
| "py_add (VFloat x) (VBool b) =
     andthen (float_of_int (if b then 1 else 0)) (\<lambda>y. Inr (VFloat (float_add x y)))"
| "py_add (VFloat x) (VFloat y) = Inr (VFloat (float_add x y))"
| "py_add (VStr s) (VStr t) = Inr (VStr (s @ t))"
| "py_add (VList xs) (VList ys) = Inr (VList (xs @ ys))"
| "py_add v w = Inl TypeError"

subsection \<open>The request executor\<close>

text \<open>
  What the code reads of an \<open>httpx\<close> response: the status code, the body text and the
  outcome of \<open>response.json()\<close>, which is the decoded body or, when decoding raises, the
  message of that exception.
\<close>

record response =
  status_code :: int
  body_text :: string
  json_result :: "string + pyval"

text \<open>
  The exceptions that can arise inside the \<open>try\<close> block, by the handler that takes them:
  \<open>httpx.HTTPStatusError\<close> (with \<open>e.response\<close>), \<open>httpx.RequestError\<close> (a transport
  failure, with \<open>str(e)\<close>) and every other \<open>Exception\<close> (with \<open>str(e)\<close>). Signals outside
  the \<open>Exception\<close> hierarchy (cancellation of the task, exit of the interpreter) are not
  failures of the call and are not modelled.
\<close>

datatype http_exception =
    HTTPStatusError response
  | RequestError string
  | OtherException string

text \<open>
  The network as one call of \<open>make_api_request\<close> meets it. The statement
  \<open>async with httpx.AsyncClient() as client\<close> of line 27 builds and enters the client before
  the \<open>try\<close> block and closes it after: \<open>client_open\<close> and \<open>client_close\<close> are the text of the
  exception that this raises, if any. \<open>client_get\<close> is what
  \<open>await client.get(url, params=params, timeout=DEFAULT_TIMEOUT)\<close> does for a URL and a
  parameter dictionary (\<open>None\<close> when the tool passes none).
\<close>

record network =
  client_open :: "string option"
  client_get :: "string \<Rightarrow> params option \<Rightarrow> http_exception + response"
  client_close :: "string option"

definition API_BASE :: string where
  "API_BASE = ''https://api.energidataservice.dk''"

text \<open>\<open>response.raise_for_status()\<close> raises unless the status is a 2xx one.\<close>

definition raise_for_status :: "response \<Rightarrow> http_exception + response" where
  "raise_for_status r =
     (if 200 \<le> status_code r \<and> status_code r \<le> 299 then Inr r else Inl (HTTPStatusError r))"

definition response_json :: "response \<Rightarrow> http_exception + pyval" where
  "response_json r = (case json_result r of Inl msg \<Rightarrow> Inl (OtherException msg) | Inr v \<Rightarrow> Inr v)"

text \<open>
  The \<open>try\<close> statement of lines 28 to 37: the three statements of the block in sequence,
  then the \<open>except\<close> clauses in their order. An exception raised inside a clause (the text
  of the status code) is not handled by the clauses after it.
\<close>

definition try_request :: "network \<Rightarrow> string \<Rightarrow> params option \<Rightarrow> py_error + pyval" where
  "try_request net url params =
     (case andthen (andthen (client_get net url params) raise_for_status) response_json of
        Inr decoded \<Rightarrow> Inr decoded
      | Inl (HTTPStatusError resp) \<Rightarrow>
          andthen (fstring [Inr ''HTTP error '', str_int (status_code resp), Inr '': '',
                            Inr (body_text resp)])
            (\<lambda>msg. Inr (VDict [(''error'', VStr msg)]))
      | Inl (RequestError msg) \<Rightarrow> Inr (VDict [(''error'', VStr (''Request failed: '' @ msg))])
      | Inl (OtherException msg) \<Rightarrow>
          Inr (VDict [(''error'', VStr (''Unexpected error: '' @ msg))]))"

text \<open>
  \<open>make_api_request\<close> (lines 23 to 37): the client is built and entered, the \<open>try\<close>
  statement runs, the client is closed. What the client raises on the way in or out is
  outside the \<open>try\<close> statement and leaves the function; an exception on the way out
  replaces the result.
\<close>

definition make_api_request :: "network \<Rightarrow> string \<Rightarrow> params option \<Rightarrow> py_error + pyval" where
  "make_api_request net endpoint params =
     (let url = API_BASE @ ''/'' @ endpoint
      in case client_open net of
           Some raised \<Rightarrow> Inl (ClientError raised)
         | None \<Rightarrow>
             (let result = try_request net url params
              in case client_close net of
                   Some raised \<Rightarrow> Inl (ClientError raised)
                 | None \<Rightarrow> result))"

subsection \<open>The record formatter\<close>

text \<open>The inner loop (lines 48 and 49): \<open>record_str += f"  {key}: {value}\n"\<close>.\<close>

fun field_lines :: "repr \<Rightarrow> string \<Rightarrow> (string \<times> pyval) list \<Rightarrow> py_error + string" where
  "field_lines repr record_str [] = Inr record_str"
| "field_lines repr record_str ((key, val) # items) =
     andthen (fstring [Inr ''  '', Inr key, Inr '': '', py_str repr val, Inr ''\<newline>''])
       (\<lambda>line. field_lines repr (record_str @ line) items)"

text \<open>
  The outer loop (lines 46 to 50) from index \<open>i\<close> of \<open>enumerate\<close> on, with the list
  \<open>formatted\<close> built so far.
\<close>

fun format_loop :: "repr \<Rightarrow> nat \<Rightarrow> pyval list \<Rightarrow> string list \<Rightarrow> py_error + string list" where
  "format_loop repr i [] formatted = Inr formatted"
| "format_loop repr i (record # rest) formatted =
     andthen (fstring [Inr ''Record '', str_int (int i + 1), Inr '':\<newline>'']) (\<lambda>record_str.
     andthen (py_items record) (\<lambda>items.
     andthen (field_lines repr record_str items) (\<lambda>record_str.
       format_loop repr (Suc i) rest (formatted @ [record_str]))))"

text \<open>\<open>format_records\<close> (lines 40 to 56)\<close>

definition format_records :: "repr \<Rightarrow> pyval \<Rightarrow> int \<Rightarrow> py_error + string" where
  "format_records repr records max_records =
     (if \<not> py_truthy records then Inr ''No records found.''
      else
        andthen (py_slice_to records max_records) (\<lambda>sliced.
        andthen (py_iter sliced) (\<lambda>rs.
        andthen (format_loop repr 0 rs []) (\<lambda>formatted.
        andthen (py_len records) (\<lambda>n.
          let result = join ''\<newline>'' formatted
          in if int n > max_records
             then andthen (fstring [Inr ''\<newline>... and '', str_int (int n - max_records),
                                    Inr '' more records''])
                    (\<lambda>more. Inr (result @ more))
             else Inr result)))))"

subsection \<open>The six tools\<close>

text \<open>
  Every tool takes the \<open>repr\<close> of the Python runtime, the network and its arguments, and
  returns its text or the exception that leaves it.
\<close>

text \<open>\<open>return f"Error: {data['error']}"\<close>\<close>

definition error_reply :: "repr \<Rightarrow> pyval \<Rightarrow> py_error + string" where
  "error_reply repr data =
     andthen (py_getitem data ''error'') (\<lambda>e. fstring [Inr ''Error: '', py_str repr e])"

definition quoted :: "string \<Rightarrow> string" where
  "quoted s = [CHR 0x27] @ s @ [CHR 0x27]"

text \<open>The body of the loop of \<open>list_datasets\<close> (lines 86 to 88).\<close>

definition dataset_line :: "repr \<Rightarrow> pyval \<Rightarrow> py_error + string" where
  "dataset_line repr ds =
     andthen (py_get ds ''name'' (VStr ''Unknown'')) (\<lambda>name.
     andthen (py_get ds ''description'' (VStr ''No description'')) (\<lambda>description.
       fstring [Inr ''- '', py_str repr name, Inr '': '', py_str repr description]))"

definition list_datasets :: "repr \<Rightarrow> network \<Rightarrow> py_error + string" where
  "list_datasets repr net =
     andthen (make_api_request net ''meta/dataset'' None) (\<lambda>data.
     if data = VNone
     then Inr ''Unable to fetch dataset list from Energinet Data Service.''
     else
       andthen (py_contains ''error'' data) (\<lambda>is_error.
       if is_error then error_reply repr data
       else
         andthen (py_get data ''result'' (VList [])) (\<lambda>datasets.
         if \<not> py_truthy datasets then Inr ''No datasets found.''
         else
           andthen (py_iter datasets) (\<lambda>dss.
           andthen (for_each (dataset_line repr) dss) (\<lambda>dataset_names.
           andthen (py_len datasets) (\<lambda>n.
           andthen (fstring [Inr ''Available datasets ('', str_int (int n),
                             Inr '' total):\<newline>\<newline>'']) (\<lambda>header.
             Inr (header @ join ''\<newline>'' dataset_names))))))))"

text \<open>\<open>if key in result: output.append(f"{label}: {result[key]}")\<close> (lines 116 to 120)\<close>

definition optional_line :: "repr \<Rightarrow> pyval \<Rightarrow> string \<Rightarrow> string \<Rightarrow> py_error + string list" where
  "optional_line repr result key label =
     andthen (py_contains key result) (\<lambda>present.
     if present
     then andthen (py_getitem result key) (\<lambda>v.
          andthen (fstring [Inr label, Inr '': '', py_str repr v]) (\<lambda>line. Inr [line]))
     else Inr [])"

text \<open>The body of the loop over the columns (lines 126 to 129).\<close>

definition column_line :: "repr \<Rightarrow> pyval \<Rightarrow> py_error + string" where
  "column_line repr col =
     andthen (py_get col ''name'' (VStr ''Unknown'')) (\<lambda>col_name.
     andthen (py_get col ''type'' (VStr ''Unknown'')) (\<lambda>col_type.
     andthen (py_get col ''description'' (VStr ''No description'')) (\<lambda>col_desc.
       fstring [Inr ''  - '', py_str repr col_name, Inr '' ('', py_str repr col_type,
                Inr ''): '', py_str repr col_desc])))"

definition get_dataset_metadata :: "repr \<Rightarrow> network \<Rightarrow> string \<Rightarrow> py_error + string" where
  "get_dataset_metadata repr net dataset_name =
     andthen (make_api_request net (''meta/'' @ dataset_name) None) (\<lambda>data.
     if data = VNone
     then Inr (''Unable to fetch metadata for dataset '' @ quoted dataset_name @ ''.'')
     else
       andthen (py_contains ''error'' data) (\<lambda>is_error.
       if is_error then error_reply repr data
       else
         andthen (py_get data ''result'' (VDict [])) (\<lambda>result.
         if \<not> py_truthy result
         then Inr (''No metadata found for dataset '' @ quoted dataset_name @ ''.'')
         else
           andthen (optional_line repr result ''description'' ''Description'') (\<lambda>desc.
           andthen (optional_line repr result ''recordCount'' ''Total Records'') (\<lambda>cnt.
           andthen (py_get result ''columns'' (VList [])) (\<lambda>columns.
           andthen (if py_truthy columns
                    then andthen (py_iter columns) (\<lambda>cols.
                         andthen (for_each (column_line repr) cols) (\<lambda>ls.
                           Inr (''\<newline>Columns:'' # ls)))
                    else Inr []) (\<lambda>col_lines.
             Inr (join ''\<newline>''
                    ([''Dataset: '' @ dataset_name] @ desc @ cnt @ col_lines)))))))))"

definition query_dataset ::
  "repr \<Rightarrow> network \<Rightarrow> string \<Rightarrow> int \<Rightarrow> int \<Rightarrow> string option \<Rightarrow> string option \<Rightarrow>
   string option \<Rightarrow> string option \<Rightarrow> string option \<Rightarrow> py_error + string" where
  "query_dataset repr net dataset_name limit offset start end filter' columns sort' =
     (let params = query_dataset_params limit offset start end filter' columns sort'
      in andthen (make_api_request net (''dataset/'' @ dataset_name) (Some params)) (\<lambda>data.
         if data = VNone
         then Inr (''Unable to query dataset '' @ quoted dataset_name @ ''.'')
         else
           andthen (py_contains ''error'' data) (\<lambda>is_error.
           if is_error then error_reply repr data
           else
             andthen (py_get data ''total'' (VInt 0)) (\<lambda>total.
             andthen (py_get data ''records'' (VList [])) (\<lambda>records.
             andthen (fstring [Inr ''Total matching records: '', py_str repr total])
               (\<lambda>total_line.
             andthen (py_len records) (\<lambda>n.
             andthen (fstring [Inr ''Records returned: '', str_int (int n)]) (\<lambda>returned_line.
             andthen (format_records repr records limit) (\<lambda>formatted.
               Inr (join ''\<newline>''
                      [''Dataset: '' @ dataset_name,
                       total_line,
                       returned_line,
                       '''',
                       formatted]))))))))))"

text \<open>\<open>if isinstance(x, (int, float)): x = f"{x:.2f}"\<close>\<close>

definition format_if_number :: "nat \<Rightarrow> pyval \<Rightarrow> py_error + pyval" where
  "format_if_number prec x =
     (if is_int_or_float x then andthen (py_format_f prec x) (\<lambda>s. Inr (VStr s)) else Inr x)"

text \<open>The body of the loop of \<open>get_electricity_prices\<close> (lines 248 to 258).\<close>

definition electricity_price_line :: "repr \<Rightarrow> pyval \<Rightarrow> py_error + string" where
  "electricity_price_line repr record =
     andthen (py_get record ''HourUTC'' (VStr ''Unknown'')) (\<lambda>hour_utc.
     andthen (py_get record ''HourDK'' hour_utc) (\<lambda>hour_dk.
     andthen (py_get record ''SpotPriceDKK'' (VStr ''N/A'')) (\<lambda>price_dkk.
     andthen (py_get record ''SpotPriceEUR'' (VStr ''N/A'')) (\<lambda>price_eur.
     andthen (format_if_number 2 price_dkk) (\<lambda>price_dkk.
     andthen (format_if_number 2 price_eur) (\<lambda>price_eur.
       fstring [py_str repr hour_dk, Inr '': '', py_str repr price_dkk, Inr '' DKK/MWh ('',
                py_str repr price_eur, Inr '' EUR/MWh)'']))))))"

definition get_electricity_prices ::
  "repr \<Rightarrow> network \<Rightarrow> string \<Rightarrow> int \<Rightarrow> string option \<Rightarrow> string option \<Rightarrow> py_error + string" where
  "get_electricity_prices repr net price_area limit start end =
     (let params = get_electricity_prices_params price_area limit start end
      in andthen (make_api_request net ''dataset/Elspotprices'' (Some params)) (\<lambda>data.
         if data = VNone
         then Inr (''Unable to fetch electricity prices for '' @ price_area @ ''.'')
         else
           andthen (py_contains ''error'' data) (\<lambda>is_error.
           if is_error then error_reply repr data
           else
             andthen (py_get data ''records'' (VList [])) (\<lambda>records.
             if \<not> py_truthy records
             then Inr (''No electricity prices found for '' @ price_area @ ''.'')
             else
               andthen (py_iter records) (\<lambda>rs.
               andthen (for_each (electricity_price_line repr) rs) (\<lambda>lines.
                 Inr (join ''\<newline>''
                        ([''Electricity Spot Prices for '' @ price_area,
                          ''(Prices in DKK/MWh and EUR/MWh)\<newline>''] @ lines))))))))"

text \<open>The body of the loop of \<open>get_co2_emissions\<close> (lines 305 to 312).\<close>

definition co2_line :: "repr \<Rightarrow> pyval \<Rightarrow> py_error + string" where
  "co2_line repr record =
     andthen (py_get record ''Minutes5UTC'' (VStr ''Unknown'')) (\<lambda>time_utc.
     andthen (py_get record ''Minutes5DK'' time_utc) (\<lambda>time.
     andthen (py_get record ''PriceArea'' (VStr ''Unknown'')) (\<lambda>area.
     andthen (py_get record ''CO2Emission'' (VStr ''N/A'')) (\<lambda>co2.
     andthen (format_if_number 1 co2) (\<lambda>co2.
       fstring [py_str repr time, Inr '' ('', py_str repr area, Inr ''): '', py_str repr co2,
                Inr '' g/kWh''])))))"

definition get_co2_emissions ::
  "repr \<Rightarrow> network \<Rightarrow> int \<Rightarrow> string option \<Rightarrow> string option \<Rightarrow> py_error + string" where
  "get_co2_emissions repr net limit start end =
     (let params = get_co2_emissions_params limit start end
      in andthen (make_api_request net ''dataset/CO2Emis'' (Some params)) (\<lambda>data.
         if data = VNone then Inr ''Unable to fetch CO2 emission data.''
         else
           andthen (py_contains ''error'' data) (\<lambda>is_error.
           if is_error then error_reply repr data
           else
             andthen (py_get data ''records'' (VList [])) (\<lambda>records.
             if \<not> py_truthy records then Inr ''No CO2 emission data found.''
             else
               andthen (py_iter records) (\<lambda>rs.
               andthen (for_each (co2_line repr) rs) (\<lambda>lines.
                 Inr (join ''\<newline>''
                        ([''CO2 Emission Intensity (g CO2/kWh)\<newline>''] @ lines))))))))"

text \<open>
  The body of the loop of \<open>get_production_consumption\<close> (lines 363 to 378): the five
  lines appended for one record.
\<close>

definition production_record_lines :: "repr \<Rightarrow> pyval \<Rightarrow> py_error + string list" where
  "production_record_lines repr record =
     andthen (py_get record ''HourUTC'' (VStr ''Unknown'')) (\<lambda>hour_utc.
     andthen (py_get record ''HourDK'' hour_utc) (\<lambda>hour.
     andthen (py_get record ''PriceArea'' (VStr ''Unknown'')) (\<lambda>area.
     andthen (py_get record ''OnshoreWindPower'' (VInt 0)) (\<lambda>onshore.
     andthen (py_get record ''OffshoreWindPower'' (VInt 0)) (\<lambda>offshore.
     andthen (py_get record ''SolarPower'' (VInt 0)) (\<lambda>solar_power.
       let onshore_wind = py_or onshore (VInt 0);
           offshore_wind = py_or offshore (VInt 0);
           solar = py_or solar_power (VInt 0)
       in
         andthen (py_add onshore_wind offshore_wind) (\<lambda>total_wind.
         andthen (py_get record ''GrossConsumption'' (VStr ''N/A'')) (\<lambda>gross_consumption.
         andthen (fstring [py_str repr hour, Inr '' ('', py_str repr area, Inr ''):''])
           (\<lambda>head_line.
         andthen (fstring [Inr ''  Wind: '', py_format_f 1 total_wind,
                           Inr '' MWh (Onshore: '', py_format_f 1 onshore_wind,
                           Inr '', Offshore: '', py_format_f 1 offshore_wind, Inr '')''])
           (\<lambda>wind_line.
         andthen (fstring [Inr ''  Solar: '', py_format_f 1 solar, Inr '' MWh''])
           (\<lambda>solar_line.
         andthen (fstring [Inr ''  Gross Consumption: '', py_str repr gross_consumption])
           (\<lambda>gross_line.
           Inr [head_line, wind_line, solar_line, gross_line, '''']))))))))))))"

definition get_production_consumption ::
  "repr \<Rightarrow> network \<Rightarrow> string option \<Rightarrow> int \<Rightarrow> string option \<Rightarrow> string option \<Rightarrow>
   py_error + string" where
  "get_production_consumption repr net price_area limit start end =
     (let params = get_production_consumption_params price_area limit start end
      in andthen (make_api_request net ''dataset/ProductionConsumptionSettlement''
                    (Some params)) (\<lambda>data.
         if data = VNone then Inr ''Unable to fetch production/consumption data.''
         else
           andthen (py_contains ''error'' data) (\<lambda>is_error.
           if is_error then error_reply repr data
           else
             andthen (py_get data ''records'' (VList [])) (\<lambda>records.
             if \<not> py_truthy records then Inr ''No production/consumption data found.''
             else
               andthen (py_iter records) (\<lambda>rs.
               andthen (for_each (production_record_lines repr) rs) (\<lambda>blocks.
                 Inr (join ''\<newline>''
                        ([''Electricity Production and Consumption (MWh)\<newline>''] @
                         concat blocks))))))))"

subsection \<open>Notions used in the statements\<close>

text \<open>
  A network whose client opens and closes without failure and answers every request with
  status 200 and a body that decodes to the given object (a mocked upstream).
\<close>

definition replying :: "pyval \<Rightarrow> network" where
  "replying decoded =
     \<lparr>client_open = None,
      client_get = (\<lambda>url params.
        Inr \<lparr>status_code = 200, body_text = [], json_result = Inr decoded\<rparr>),
      client_close = None\<rparr>"


text \<open>
  The rendered block of the record with index \<open>i\<close> (from 0), in the words of the
  specification: the heading \<open>Record <i + 1>:\<close>, then one indented \<open>key: value\<close> line per
  field in the record's own order. \<open>text_of\<close> is the text of a conversion that succeeds.
\<close>

definition text_of :: "py_error + string \<Rightarrow> string" where
  "text_of r = (case r of Inl e \<Rightarrow> [] | Inr s \<Rightarrow> s)"

definition has_text :: "py_error + string \<Rightarrow> bool" where
  "has_text r = (case r of Inl e \<Rightarrow> False | Inr s \<Rightarrow> True)"

definition record_block :: "repr \<Rightarrow> nat \<times> (string \<times> pyval) list \<Rightarrow> string" where
  "record_block repr ir =
     ''Record '' @ text_of (str_int (int (fst ir) + 1)) @ '':\<newline>'' @
     concat (map (\<lambda>kv. ''  '' @ fst kv @ '': '' @ text_of (py_str repr (snd kv)) @ ''\<newline>'')
               (snd ir))"






section \<open>Properties\<close>

subsection \<open>Query parameters\<close>

lemma map_of_dict_set: "map_of (dict_set k v d) = (map_of d)(k \<mapsto> v)"
  by (induction d) (auto simp: fun_eq_iff)

lemma map_of_set_if_given:
  "map_of (set_if_given k arg ps) =
     (case arg of None \<Rightarrow> map_of ps
      | Some s \<Rightarrow> if s = [] then map_of ps else (map_of ps)(k \<mapsto> PStr s))"
  by (simp add: set_if_given_def map_of_dict_set split: option.split)

lemma set_if_given_empty: "set_if_given k (Some []) ps = set_if_given k None ps"
  by (simp add: set_if_given_def)

lemma limit_of_query_dataset_params:
  "map_of (query_dataset_params limit offset start end filter' columns sort') ''limit'' =
     Some (PInt (min limit 100))"
  by (simp add: query_dataset_params_def Let_def map_of_set_if_given map_of_dict_set
      split: option.split)

lemma limit_of_get_electricity_prices_params:
  "map_of (get_electricity_prices_params price_area limit start end) ''limit'' =
     Some (PInt (min limit 100))"
  by (simp add: get_electricity_prices_params_def Let_def map_of_set_if_given split: option.split)

lemma limit_of_get_co2_emissions_params:
  "map_of (get_co2_emissions_params limit start end) ''limit'' = Some (PInt (min limit 100))"
  by (simp add: get_co2_emissions_params_def Let_def map_of_set_if_given split: option.split)

lemma limit_of_get_production_consumption_params:
  "map_of (get_production_consumption_params price_area limit start end) ''limit'' =
     Some (PInt (min limit 100))"
  by (simp add: get_production_consumption_params_def Let_def map_of_set_if_given
      map_of_dict_set split: option.split)

text \<open>
  Claim C1, as stated: in every tool that sends a \<open>limit\<close> parameter the value sent lies in
  the range from 1 to 100, for every integer argument. The code only caps the value with
  \<open>min(limit, 100)\<close>: \<open>query_dataset\<close> called with \<open>limit = 0\<close> sends the limit 0.
\<close>

theorem limit_not_clamped_from_below:
  "map_of (query_dataset_params 0 0 None None None None None) ''limit'' = Some (PInt 0)"
  by (simp add: query_dataset_params_def set_if_given_def)

text \<open>
  Claim C1, amended: in \<open>query_dataset\<close>, \<open>get_electricity_prices\<close>, \<open>get_co2_emissions\<close> and
  \<open>get_production_consumption\<close> the limit sent is \<open>min(limit, 100)\<close> for every integer
  argument. It is therefore at most 100, and it is at least 1 whenever the argument is.
\<close>

theorem transmitted_limit_is_min:
  "map_of (query_dataset_params limit offset start end filter' columns sort') ''limit'' =
     Some (PInt (min limit 100)) \<and>
   map_of (get_electricity_prices_params area limit start end) ''limit'' =
     Some (PInt (min limit 100)) \<and>
   map_of (get_co2_emissions_params limit start end) ''limit'' = Some (PInt (min limit 100)) \<and>
   map_of (get_production_consumption_params price_area limit start end) ''limit'' =
     Some (PInt (min limit 100)) \<and>
   min limit 100 \<le> 100 \<and>
   (1 \<le> limit \<longrightarrow> 1 \<le> min limit 100)"
  by (simp add: limit_of_query_dataset_params limit_of_get_electricity_prices_params
      limit_of_get_co2_emissions_params limit_of_get_production_consumption_params)

theorem transmitted_limit_is_min_witness:
  "map_of (query_dataset_params 250 0 None None None None None) ''limit'' = Some (PInt 100) \<and>
   map_of (get_electricity_prices_params ''DK1'' 250 None None) ''limit'' = Some (PInt 100) \<and>
   map_of (get_co2_emissions_params 250 None None) ''limit'' = Some (PInt 100) \<and>
   map_of (get_production_consumption_params None 250 None None) ''limit'' = Some (PInt 100) \<and>
   (1::int) \<le> 250 \<and> (1::int) \<le> min 250 100"
  using transmitted_limit_is_min [of 250 0 None None None None None "''DK1''" None]
  by simp

text \<open>
  Claim C7: in the parameters of \<open>query_dataset\<close>, every limit argument above 100 is sent
  as 100, and every limit argument from 1 to 100 is sent unchanged.
\<close>

theorem query_dataset_limit_clamp:
  "(100 < limit \<longrightarrow>
      map_of (query_dataset_params limit offset start end filter' columns sort') ''limit'' =
        Some (PInt 100)) \<and>
   (1 \<le> limit \<and> limit \<le> 100 \<longrightarrow>
      map_of (query_dataset_params limit offset start end filter' columns sort') ''limit'' =
        Some (PInt limit))"
  by (simp add: limit_of_query_dataset_params)

theorem query_dataset_limit_clamp_witness:
  "(100::int) < 250 \<and>
   map_of (query_dataset_params 250 0 None None None None None) ''limit'' = Some (PInt 100) \<and>
   (1::int) \<le> 42 \<and> (42::int) \<le> 100 \<and>
   map_of (query_dataset_params 42 0 None None None None None) ''limit'' = Some (PInt 42)"
  using query_dataset_limit_clamp [of 250 0 None None None None None]
    query_dataset_limit_clamp [of 42 0 None None None None None]
  by simp

lemma query_dataset_params_empty:
  "query_dataset_params l off (Some []) e f c s = query_dataset_params l off None e f c s"
  "query_dataset_params l off st (Some []) f c s = query_dataset_params l off st None f c s"
  "query_dataset_params l off st e (Some []) c s = query_dataset_params l off st e None c s"
  "query_dataset_params l off st e f (Some []) s = query_dataset_params l off st e f None s"
  "query_dataset_params l off st e f c (Some []) = query_dataset_params l off st e f c None"
  by (simp_all add: query_dataset_params_def set_if_given_empty)

lemma other_params_empty:
  "get_electricity_prices_params a l (Some []) e = get_electricity_prices_params a l None e"
  "get_electricity_prices_params a l st (Some []) = get_electricity_prices_params a l st None"
  "get_co2_emissions_params l (Some []) e = get_co2_emissions_params l None e"
  "get_co2_emissions_params l st (Some []) = get_co2_emissions_params l st None"
  "get_production_consumption_params (Some []) l st e =
     get_production_consumption_params None l st e"
  "get_production_consumption_params pa l (Some []) e =
     get_production_consumption_params pa l None e"
  "get_production_consumption_params pa l st (Some []) =
     get_production_consumption_params pa l st None"
  by (simp_all add: get_electricity_prices_params_def get_co2_emissions_params_def
      get_production_consumption_params_def set_if_given_empty)

lemma offset_of_query_dataset_params:
  "map_of (query_dataset_params l off st e f c s) ''offset'' =
     (if 0 < off then Some (PInt off) else None)"
  by (simp add: query_dataset_params_def Let_def map_of_set_if_given map_of_dict_set
      split: option.split)

text \<open>
  Claim C10, as stated: in every tool an empty-text \<open>start\<close>, \<open>end\<close>, \<open>filter\<close>, \<open>columns\<close>,
  \<open>sort\<close> or \<open>price_area\<close> is treated as if the argument were absent. In
  \<open>get_electricity_prices\<close> the argument \<open>price_area\<close> (default \<open>"DK1"\<close>) is not tested: an
  empty text is sent inside the filter, where the absent argument sends \<open>"DK1"\<close>.
\<close>

theorem empty_price_area_is_transmitted:
  \<open>map_of (get_electricity_prices_params '''' 24 None None) ''filter'' =
     Some (PStr ''"PriceArea" = ""'') \<and>
   map_of (get_electricity_prices_params ''DK1'' 24 None None) ''filter'' =
     Some (PStr ''"PriceArea" = "DK1"'')\<close>
  by (simp add: get_electricity_prices_params_def set_if_given_def price_area_filter_def)

text \<open>
  Claim C10, amended: an argument declared \<open>str | None\<close> that is given as the empty text is
  treated exactly as if it were absent, in the parameters sent and in the whole result:
  \<open>start\<close>, \<open>end\<close>, \<open>filter\<close>, \<open>columns\<close> and \<open>sort\<close> of \<open>query_dataset\<close>, \<open>start\<close> and \<open>end\<close> of
  \<open>get_electricity_prices\<close> and \<open>get_co2_emissions\<close>, and \<open>price_area\<close>, \<open>start\<close> and \<open>end\<close> of
  \<open>get_production_consumption\<close>. In \<open>query_dataset\<close> the offset is sent exactly when it is
  positive. The \<open>price_area\<close> of \<open>get_electricity_prices\<close> is always sent, inside the filter.
\<close>

theorem falsy_optional_arguments_omitted:
  "query_dataset repr net name l off (Some []) e f c s =
     query_dataset repr net name l off None e f c s \<and>
   query_dataset repr net name l off st (Some []) f c s =
     query_dataset repr net name l off st None f c s \<and>
   query_dataset repr net name l off st e (Some []) c s =
     query_dataset repr net name l off st e None c s \<and>
   query_dataset repr net name l off st e f (Some []) s =
     query_dataset repr net name l off st e f None s \<and>
   query_dataset repr net name l off st e f c (Some []) =
     query_dataset repr net name l off st e f c None \<and>
   query_dataset_params l off (Some []) (Some []) (Some []) (Some []) (Some []) =
     query_dataset_params l off None None None None None \<and>
   get_electricity_prices repr net a l (Some []) e = get_electricity_prices repr net a l None e \<and>
   get_electricity_prices repr net a l st (Some []) =
     get_electricity_prices repr net a l st None \<and>
   get_electricity_prices_params a l (Some []) (Some []) =
     get_electricity_prices_params a l None None \<and>
   get_co2_emissions repr net l (Some []) e = get_co2_emissions repr net l None e \<and>
   get_co2_emissions repr net l st (Some []) = get_co2_emissions repr net l st None \<and>
   get_co2_emissions_params l (Some []) (Some []) = get_co2_emissions_params l None None \<and>
   get_production_consumption repr net (Some []) l st e =
     get_production_consumption repr net None l st e \<and>
   get_production_consumption repr net pa l (Some []) e =
     get_production_consumption repr net pa l None e \<and>
   get_production_consumption repr net pa l st (Some []) =
     get_production_consumption repr net pa l st None \<and>
   get_production_consumption_params (Some []) l (Some []) (Some []) =
     get_production_consumption_params None l None None \<and>
   (0 < off \<longrightarrow> map_of (query_dataset_params l off st e f c s) ''offset'' = Some (PInt off)) \<and>
   (off \<le> 0 \<longrightarrow> map_of (query_dataset_params l off st e f c s) ''offset'' = None) \<and>
   map_of (get_electricity_prices_params a l st e) ''filter'' = Some (PStr (price_area_filter a))"
  by (simp add: query_dataset_def get_electricity_prices_def get_co2_emissions_def
      get_production_consumption_def query_dataset_params_empty other_params_empty
      offset_of_query_dataset_params)
    (simp add: get_electricity_prices_params_def map_of_set_if_given split: option.split)

theorem falsy_optional_arguments_omitted_witness:
  "(0::int) < 5 \<and>
   map_of (query_dataset_params 10 5 None None None None None) ''offset'' = Some (PInt 5) \<and>
   (0::int) \<le> 0 \<and>
   map_of (query_dataset_params 10 0 None None None None None) ''offset'' = None \<and>
   query_dataset_params 10 0 (Some []) (Some []) (Some []) (Some []) (Some []) =
     query_dataset_params 10 0 None None None None None"
  using falsy_optional_arguments_omitted [where l = 10 and off = 5 and st = None and e = None
      and f = None and c = None and s = None]
    falsy_optional_arguments_omitted [where l = 10 and off = 0 and st = None and e = None
      and f = None and c = None and s = None]
  by simp

subsection \<open>The request executor\<close>

lemma make_api_request_replying: "make_api_request (replying v) endpoint params = Inr v"
  by (simp add: make_api_request_def try_request_def replying_def raise_for_status_def
      response_json_def andthen_def)

lemma try_request_cases:
  "try_request net url params =
     (case client_get net url params of
        Inl (HTTPStatusError r) \<Rightarrow>
          (case str_int (status_code r) of
             Inl e \<Rightarrow> Inl e
           | Inr code \<Rightarrow>
               Inr (VDict [(''error'', VStr (''HTTP error '' @ code @ '': '' @ body_text r))]))
      | Inl (RequestError msg) \<Rightarrow> Inr (VDict [(''error'', VStr (''Request failed: '' @ msg))])
      | Inl (OtherException msg) \<Rightarrow>
          Inr (VDict [(''error'', VStr (''Unexpected error: '' @ msg))])
      | Inr r \<Rightarrow>
          if 200 \<le> status_code r \<and> status_code r \<le> 299
          then (case json_result r of
                  Inl msg \<Rightarrow> Inr (VDict [(''error'', VStr (''Unexpected error: '' @ msg))])
                | Inr v \<Rightarrow> Inr v)
          else (case str_int (status_code r) of
                  Inl e \<Rightarrow> Inl e
                | Inr code \<Rightarrow>
                    Inr (VDict [(''error'',
                      VStr (''HTTP error '' @ code @ '': '' @ body_text r))])))"
  by (simp add: try_request_def andthen_def raise_for_status_def response_json_def
      split: sum.splits http_exception.splits)

lemma make_api_request_client_ok:
  "client_open net = None \<Longrightarrow> client_close net = None \<Longrightarrow>
   make_api_request net endpoint params = try_request net (API_BASE @ ''/'' @ endpoint) params"
  by (simp add: make_api_request_def)

text \<open>
  Claim C5, as stated: in no case does \<open>make_api_request\<close> propagate a failure to its
  caller. The statement \<open>async with httpx.AsyncClient() as client\<close> of line 27 is outside
  the \<open>try\<close> block: when building the client raises, the exception leaves
  \<open>make_api_request\<close>, and \<open>list_datasets\<close> after it.
\<close>

theorem client_failure_is_propagated:
  "make_api_request
     \<lparr>client_open = Some ''Using SOCKS proxy, but the socksio package is not installed'',
      client_get = (\<lambda>url params. Inl (RequestError [])), client_close = None\<rparr>
     ''meta/dataset'' None =
     Inl (ClientError ''Using SOCKS proxy, but the socksio package is not installed'') \<and>
   list_datasets (\<lambda>v. Inr [])
     \<lparr>client_open = Some ''Using SOCKS proxy, but the socksio package is not installed'',
      client_get = (\<lambda>url params. Inl (RequestError [])), client_close = None\<rparr> =
     Inl (ClientError ''Using SOCKS proxy, but the socksio package is not installed'')"
  by (simp add: list_datasets_def make_api_request_def andthen_def)

text \<open>
  Claim C5, amended: \<open>make_api_request\<close> turns every failure of the request inside its
  \<open>try\<close> block into an error value. With a client that opens and closes without failure:
  on a status outside 2xx it returns an error mapping with the status code and the
  body text; on a transport failure, one with the failure's description; on any other
  exception of the request, the status check or the decoding, one with the generic prefix; and every
  result is the decoded body of a 2xx response or such an error mapping, nothing being
  propagated (the status code having a text, as every three-digit code has). An exception
  raised while the client is built, entered or closed, which is outside the \<open>try\<close> block,
  is propagated to the caller.
\<close>

theorem make_api_request_outcomes:
  "(client_open net = None \<and> client_close net = None \<and>
    client_get net (API_BASE @ ''/'' @ endpoint) params = Inr r \<and>
    \<not> (200 \<le> status_code r \<and> status_code r \<le> 299) \<and> str_int (status_code r) = Inr code \<longrightarrow>
      make_api_request net endpoint params =
        Inr (VDict [(''error'', VStr (''HTTP error '' @ code @ '': '' @ body_text r))])) \<and>
   (client_open net = None \<and> client_close net = None \<and>
    client_get net (API_BASE @ ''/'' @ endpoint) params = Inl (RequestError msg) \<longrightarrow>
      make_api_request net endpoint params =
        Inr (VDict [(''error'', VStr (''Request failed: '' @ msg))])) \<and>
   (client_open net = None \<and> client_close net = None \<and>
    client_get net (API_BASE @ ''/'' @ endpoint) params = Inl (OtherException msg) \<longrightarrow>
      make_api_request net endpoint params =
        Inr (VDict [(''error'', VStr (''Unexpected error: '' @ msg))])) \<and>
   (client_open net = None \<and> client_close net = None \<and>
    client_get net (API_BASE @ ''/'' @ endpoint) params = Inr r \<and>
    200 \<le> status_code r \<and> status_code r \<le> 299 \<and> json_result r = Inl msg \<longrightarrow>
      make_api_request net endpoint params =
        Inr (VDict [(''error'', VStr (''Unexpected error: '' @ msg))])) \<and>
   (client_open net = None \<and> client_close net = None \<and>
    (\<forall>resp. client_get net (API_BASE @ ''/'' @ endpoint) params = Inr resp \<or>
            client_get net (API_BASE @ ''/'' @ endpoint) params = Inl (HTTPStatusError resp) \<longrightarrow>
            has_text (str_int (status_code resp))) \<longrightarrow>
      (\<exists>ok. client_get net (API_BASE @ ''/'' @ endpoint) params = Inr ok \<and>
         200 \<le> status_code ok \<and> status_code ok \<le> 299 \<and>
         (\<exists>decoded. json_result ok = Inr decoded \<and>
            make_api_request net endpoint params = Inr decoded)) \<or>
      (\<exists>text. make_api_request net endpoint params = Inr (VDict [(''error'', VStr text)]))) \<and>
   (client_open net = Some raised \<longrightarrow>
      make_api_request net endpoint params = Inl (ClientError raised)) \<and>
   (client_open net = None \<and> client_close net = Some raised \<longrightarrow>
      make_api_request net endpoint params = Inl (ClientError raised))"
proof -
  have inside: "(\<exists>ok. client_get net url params = Inr ok \<and>
         200 \<le> status_code ok \<and> status_code ok \<le> 299 \<and>
         (\<exists>decoded. json_result ok = Inr decoded \<and>
            try_request net url params = Inr decoded)) \<or>
      (\<exists>text. try_request net url params = Inr (VDict [(''error'', VStr text)]))"
    if "\<forall>resp. client_get net url params = Inr resp \<or>
            client_get net url params = Inl (HTTPStatusError resp) \<longrightarrow>
            has_text (str_int (status_code resp))" for url
    using that unfolding try_request_cases
    by (auto simp: has_text_def split: sum.splits http_exception.splits)
  show ?thesis
    using inside [of "API_BASE @ ''/'' @ endpoint"]
    by (auto simp: make_api_request_client_ok try_request_cases make_api_request_def)
qed

theorem make_api_request_outcomes_witness:
  "make_api_request
     \<lparr>client_open = None,
      client_get = (\<lambda>url params.
        Inr \<lparr>status_code = 404, body_text = ''Not Found'', json_result = Inl []\<rparr>),
      client_close = None\<rparr>
     ''meta/dataset'' None = Inr (VDict [(''error'', VStr ''HTTP error 404: Not Found'')]) \<and>
   make_api_request
     \<lparr>client_open = None, client_get = (\<lambda>url params. Inl (RequestError ''timed out'')),
      client_close = None\<rparr>
     ''meta/dataset'' None = Inr (VDict [(''error'', VStr ''Request failed: timed out'')]) \<and>
   make_api_request
     \<lparr>client_open = None, client_get = (\<lambda>url params. Inl (OtherException ''bad'')),
      client_close = None\<rparr>
     ''meta/dataset'' None = Inr (VDict [(''error'', VStr ''Unexpected error: bad'')]) \<and>
   make_api_request
     \<lparr>client_open = None,
      client_get = (\<lambda>url params.
        Inr \<lparr>status_code = 200, body_text = ''<html>'', json_result = Inl ''Expecting value''\<rparr>),
      client_close = None\<rparr>
     ''meta/dataset'' None =
     Inr (VDict [(''error'', VStr ''Unexpected error: Expecting value'')]) \<and>
   (\<exists>text. make_api_request
      \<lparr>client_open = None, client_get = (\<lambda>url params. Inl (RequestError ''timed out'')),
       client_close = None\<rparr>
      ''meta/dataset'' None = Inr (VDict [(''error'', VStr text)])) \<and>
   make_api_request
     \<lparr>client_open = Some ''no proxy support'',
      client_get = (\<lambda>url params. Inl (RequestError ''timed out'')), client_close = None\<rparr>
     ''meta/dataset'' None = Inl (ClientError ''no proxy support'') \<and>
   make_api_request
     \<lparr>client_open = None,
      client_get = (\<lambda>url params. Inl (RequestError ''timed out'')),
      client_close = Some ''close failed''\<rparr>
     ''meta/dataset'' None = Inl (ClientError ''close failed'')"
proof -
  have code: "str_int 404 = Inr ''404''"
    by code_simp
  show ?thesis
    using make_api_request_outcomes [where endpoint = "''meta/dataset''" and params = None
        and net = "\<lparr>client_open = None,
          client_get = (\<lambda>url params.
            Inr \<lparr>status_code = 404, body_text = ''Not Found'', json_result = Inl []\<rparr>),
          client_close = None\<rparr>"
        and r = "\<lparr>status_code = 404, body_text = ''Not Found'', json_result = Inl []\<rparr>"
        and code = "''404''"]
      make_api_request_outcomes [where endpoint = "''meta/dataset''" and params = None
        and net = "\<lparr>client_open = None,
          client_get = (\<lambda>url params. Inl (RequestError ''timed out'')), client_close = None\<rparr>"
        and msg = "''timed out''"]
      make_api_request_outcomes [where endpoint = "''meta/dataset''" and params = None
        and net = "\<lparr>client_open = None,
          client_get = (\<lambda>url params. Inl (OtherException ''bad'')), client_close = None\<rparr>"
        and msg = "''bad''"]
      make_api_request_outcomes [where endpoint = "''meta/dataset''" and params = None
        and net = "\<lparr>client_open = None,
          client_get = (\<lambda>url params.
            Inr \<lparr>status_code = 200, body_text = ''<html>'',
              json_result = Inl ''Expecting value''\<rparr>),
          client_close = None\<rparr>"
        and r = "\<lparr>status_code = 200, body_text = ''<html>'',
          json_result = Inl ''Expecting value''\<rparr>" and msg = "''Expecting value''"]
      make_api_request_outcomes [where endpoint = "''meta/dataset''" and params = None
        and net = "\<lparr>client_open = Some ''no proxy support'',
          client_get = (\<lambda>url params. Inl (RequestError ''timed out'')), client_close = None\<rparr>"
        and raised = "''no proxy support''"]
      make_api_request_outcomes [where endpoint = "''meta/dataset''" and params = None
        and net = "\<lparr>client_open = None,
          client_get = (\<lambda>url params. Inl (RequestError ''timed out'')),
          client_close = Some ''close failed''\<rparr>"
        and raised = "''close failed''"]
    by (simp add: code)
qed




subsection \<open>Error replies of the tools\<close>

lemma error_dict_reply:
  "py_contains ''error'' (VDict [(''error'', VStr msg)]) = Inr True"
  "error_reply repr (VDict [(''error'', VStr msg)]) = Inr (''Error: '' @ msg)"
  by (simp_all add: error_reply_def andthen_def)

text \<open>
  Claim C4: for each of the six tools, if \<open>make_api_request\<close> returns the mapping
  \<open>{"error": "boom"}\<close> for the tool's request, the tool returns the text \<open>Error: boom\<close> (and
  so a text that begins with it).
\<close>

theorem tools_render_upstream_error:
  "(make_api_request net ''meta/dataset'' None = Inr (VDict [(''error'', VStr ''boom'')]) \<longrightarrow>
      list_datasets repr net = Inr ''Error: boom'') \<and>
   (make_api_request net (''meta/'' @ dataset_name) None =
      Inr (VDict [(''error'', VStr ''boom'')]) \<longrightarrow>
      get_dataset_metadata repr net dataset_name = Inr ''Error: boom'') \<and>
   (make_api_request net (''dataset/'' @ dataset_name)
        (Some (query_dataset_params limit offset start end filter' columns sort')) =
      Inr (VDict [(''error'', VStr ''boom'')]) \<longrightarrow>
      query_dataset repr net dataset_name limit offset start end filter' columns sort' =
        Inr ''Error: boom'') \<and>
   (make_api_request net ''dataset/Elspotprices''
        (Some (get_electricity_prices_params area limit start end)) =
      Inr (VDict [(''error'', VStr ''boom'')]) \<longrightarrow>
      get_electricity_prices repr net area limit start end = Inr ''Error: boom'') \<and>
   (make_api_request net ''dataset/CO2Emis'' (Some (get_co2_emissions_params limit start end)) =
      Inr (VDict [(''error'', VStr ''boom'')]) \<longrightarrow>
      get_co2_emissions repr net limit start end = Inr ''Error: boom'') \<and>
   (make_api_request net ''dataset/ProductionConsumptionSettlement''
        (Some (get_production_consumption_params price_area limit start end)) =
      Inr (VDict [(''error'', VStr ''boom'')]) \<longrightarrow>
      get_production_consumption repr net price_area limit start end = Inr ''Error: boom'')"
  by (simp add: list_datasets_def get_dataset_metadata_def query_dataset_def
      get_electricity_prices_def get_co2_emissions_def get_production_consumption_def
      Let_def error_dict_reply andthen_def)

theorem tools_render_upstream_error_witness:
  "list_datasets (\<lambda>v. Inr []) (replying (VDict [(''error'', VStr ''boom'')])) =
     Inr ''Error: boom'' \<and>
   get_dataset_metadata (\<lambda>v. Inr []) (replying (VDict [(''error'', VStr ''boom'')])) ''CO2Emis'' =
     Inr ''Error: boom'' \<and>
   query_dataset (\<lambda>v. Inr []) (replying (VDict [(''error'', VStr ''boom'')])) ''CO2Emis'' 10 0
     None None None None None = Inr ''Error: boom'' \<and>
   get_electricity_prices (\<lambda>v. Inr []) (replying (VDict [(''error'', VStr ''boom'')])) ''DK1'' 24
     None None = Inr ''Error: boom'' \<and>
   get_co2_emissions (\<lambda>v. Inr []) (replying (VDict [(''error'', VStr ''boom'')])) 24 None None =
     Inr ''Error: boom'' \<and>
   get_production_consumption (\<lambda>v. Inr []) (replying (VDict [(''error'', VStr ''boom'')])) None 24
     None None = Inr ''Error: boom''"
  using tools_render_upstream_error [where net = "replying (VDict [(''error'', VStr ''boom'')])"
      and repr = "\<lambda>v. Inr []" and dataset_name = "''CO2Emis''" and limit = 10 and offset = 0
      and start = None and ?end = None and filter' = None and columns = None and sort' = None
      and area = "''DK1''" and price_area = None]
    tools_render_upstream_error [where net = "replying (VDict [(''error'', VStr ''boom'')])"
      and repr = "\<lambda>v. Inr []" and dataset_name = "''CO2Emis''" and limit = 24 and offset = 0
      and start = None and ?end = None and filter' = None and columns = None and sort' = None
      and area = "''DK1''" and price_area = None]
  by (simp add: make_api_request_replying)

subsection \<open>The record formatter\<close>

text \<open>
  Claim C8: \<open>format_records\<close> on an empty sequence of records returns exactly
  \<open>No records found.\<close>, whatever the cap.
\<close>

theorem format_records_empty:
  "format_records repr (VList []) max_records = Inr ''No records found.''"
  by (simp add: format_records_def)

lemma str_digits_nonempty: "0 < length (str_digits n)"
  by (subst str_digits.simps) simp

lemma str_digits_length_mono:
  "0 \<le> a \<Longrightarrow> a \<le> b \<Longrightarrow> length (str_digits a) \<le> length (str_digits b)"
proof (induction b arbitrary: a rule: str_digits.induct)
  case (1 n)
  show ?case
  proof (cases "n < 10")
    case True
    with 1 have "a < 10" by simp
    with True show ?thesis
      by (simp add: str_digits.simps [of a] str_digits.simps [of n])
  next
    case False
    show ?thesis
    proof (cases "a < 10")
      case True
      with False str_digits_nonempty [of "n div 10"] show ?thesis
        by (simp add: str_digits.simps [of a] str_digits.simps [of n])
    next
      case a: False
      from 1 have "a div 10 \<le> n div 10" "0 \<le> a div 10"
        by (simp_all add: zdiv_mono1)
      with 1(1) [OF False] have "length (str_digits (a div 10)) \<le> length (str_digits (n div 10))"
        by simp
      with a False show ?thesis
        by (simp add: str_digits.simps [of a] str_digits.simps [of n])
    qed
  qed
qed

lemma has_text_str_int_mono:
  "0 \<le> a \<Longrightarrow> a \<le> b \<Longrightarrow> has_text (str_int b) \<Longrightarrow> has_text (str_int a)"
  using str_digits_length_mono [of a b]
  by (auto simp: has_text_def str_int_def Let_def split: if_splits)

lemma str_digits_power: "10 ^ k \<le> n \<Longrightarrow> k < length (str_digits n)"
proof (induction k arbitrary: n)
  case 0
  show ?case by (rule str_digits_nonempty)
next
  case (Suc k)
  from Suc.prems have le: "10 * 10 ^ k \<le> n"
    by simp
  then have "(10 * 10 ^ k) div 10 \<le> n div 10"
    by (rule zdiv_mono1) simp
  then have "10 ^ k \<le> n div 10"
    by simp
  then have "k < length (str_digits (n div 10))"
    by (rule Suc.IH)
  moreover have "(1::int) \<le> 10 ^ k"
    by simp
  with le have "\<not> n < 10"
    by linarith
  ultimately show ?case
    by (simp add: str_digits.simps [of n])
qed

lemma str_int_over_limit: "str_int (10 ^ int_max_str_digits) = Inl ValueError"
  using str_digits_power [of int_max_str_digits "10 ^ int_max_str_digits"]
  by (simp add: str_int_def)

lemma has_textE: "has_text r \<Longrightarrow> r = Inr (text_of r)"
  by (cases r) (simp_all add: has_text_def text_of_def)

lemma field_lines_eq:
  "\<forall>kv \<in> set items. has_text (py_str repr (snd kv)) \<Longrightarrow>
   field_lines repr acc items =
     Inr (acc @ concat (map (\<lambda>kv. ''  '' @ fst kv @ '': '' @ text_of (py_str repr (snd kv)) @
                                   ''\<newline>'') items))"
proof (induction items arbitrary: acc)
  case Nil
  show ?case by simp
next
  case (Cons kv items)
  obtain key val where kv: "kv = (key, val)"
    by (cases kv)
  from Cons.prems kv have "py_str repr val = Inr (text_of (py_str repr val))"
    by (simp add: has_textE)
  then obtain s where s: "py_str repr val = Inr s"
    by blast
  with Cons kv show ?case
    by (simp add: andthen_def text_of_def)
qed

lemma field_lines_fails:
  "\<exists>kv \<in> set items. \<not> has_text (py_str repr (snd kv)) \<Longrightarrow>
   \<exists>e. field_lines repr acc items = Inl e"
proof (induction items arbitrary: acc)
  case Nil
  then show ?case by simp
next
  case (Cons kv items)
  obtain key val where kv: "kv = (key, val)"
    by (cases kv)
  show ?case
  proof (cases "py_str repr val")
    case (Inl e)
    with kv show ?thesis
      by (simp add: andthen_def)
  next
    case (Inr s)
    with Cons.prems kv have "\<exists>kv \<in> set items. \<not> has_text (py_str repr (snd kv))"
      by (simp add: has_text_def)
    from Cons.IH [OF this] Inr kv show ?thesis
      by (simp add: andthen_def)
  qed
qed

lemma format_loop_dicts:
  "\<forall>j < length rs. has_text (str_int (int (i + j) + 1)) \<Longrightarrow>
   \<forall>r \<in> set rs. \<forall>kv \<in> set r. has_text (py_str repr (snd kv)) \<Longrightarrow>
   format_loop repr i (map VDict rs) acc = Inr (acc @ map (record_block repr) (enumerate i rs))"
proof (induction rs arbitrary: i acc)
  case Nil
  show ?case by simp
next
  case (Cons r rs)
  from Cons.prems(1) have "has_text (str_int (int (i + 0) + 1))"
    by blast
  then have "str_int (int i + 1) = Inr (text_of (str_int (int i + 1)))"
    by (simp add: has_textE)
  then obtain h where h: "str_int (int i + 1) = Inr h"
    by blast
  from Cons.prems(1) have "\<forall>j < length rs. has_text (str_int (int (Suc i + j) + 1))"
    by auto
  moreover from Cons.prems(2) have "\<forall>r \<in> set rs. \<forall>kv \<in> set r. has_text (py_str repr (snd kv))"
    by simp
  ultimately have "format_loop repr (Suc i) (map VDict rs) acc' =
      Inr (acc' @ map (record_block repr) (enumerate (Suc i) rs))" for acc'
    by (rule Cons.IH)
  moreover from Cons.prems(2) have "\<forall>kv \<in> set r. has_text (py_str repr (snd kv))"
    by simp
  ultimately show ?case
    using h by (simp add: andthen_def field_lines_eq record_block_def text_of_def)
qed

lemma format_loop_fails:
  "\<exists>r \<in> set rs. \<exists>kv \<in> set r. \<not> has_text (py_str repr (snd kv)) \<Longrightarrow>
   \<exists>e. format_loop repr i (map VDict rs) acc = Inl e"
proof (induction rs arbitrary: i acc)
  case Nil
  then show ?case by simp
next
  case (Cons r rs)
  show ?case
  proof (cases "str_int (int i + 1)")
    case (Inl e)
    then show ?thesis
      by (simp add: andthen_def)
  next
    case h: (Inr h)
    show ?thesis
    proof (cases "\<exists>kv \<in> set r. \<not> has_text (py_str repr (snd kv))")
      case True
      then obtain e where "field_lines repr (''Record '' @ h @ '':\<newline>'') r = Inl e"
        using field_lines_fails by blast
      with h show ?thesis
        by (simp add: andthen_def)
    next
      case False
      with Cons.prems have "\<exists>r \<in> set rs. \<exists>kv \<in> set r. \<not> has_text (py_str repr (snd kv))"
        by auto
      from Cons.IH [OF this] h show ?thesis
        by (cases "field_lines repr (''Record '' @ h @ '':\<newline>'') r")
          (auto simp: andthen_def)
    qed
  qed
qed

lemma slice_to_nonneg: "0 \<le> n \<Longrightarrow> slice_to xs n = take (nat n) xs"
  by (simp add: slice_to_def)

text \<open>
  Claim C3, as stated: for every sequence of \<open>L\<close> records and every cap \<open>C\<close>,
  \<open>format_records\<close> renders exactly \<open>min(L, C)\<close> blocks and adds the omission line if and only
  if \<open>L > C\<close>. The cap is an \<open>int\<close> (\<open>query_dataset\<close> passes its \<open>limit\<close> argument as it is),
  and for a negative cap the slice \<open>records[:C]\<close> drops the last \<open>-C\<close> records: three records
  with the cap \<open>-1\<close> render two blocks, which is not \<open>min(3, -1)\<close>.
\<close>

theorem negative_cap_shows_wrong_count:
  "format_records (\<lambda>v. Inr [])
     (VList [VDict [(''a'', VInt 1)], VDict [(''a'', VInt 2)], VDict [(''a'', VInt 3)]]) (- 1) =
   Inr ''Record 1:\<newline>  a: 1\<newline>\<newline>Record 2:\<newline>  a: 2\<newline>\<newline>... and 4 more records''"
  by code_simp

text \<open>
  Claim C3, amended: for every sequence of \<open>L\<close> records and every cap \<open>C \<ge> 0\<close>, where \<open>L\<close>
  has a decimal text (at most 4300 digits) and every field value of the first \<open>C\<close> records
  has a text (\<open>str\<close> of it does not raise), \<open>format_records\<close> produces exactly \<open>min(L, C)\<close>
  rendered blocks, joined by a newline; block \<open>i\<close> (from 0) is headed \<open>Record <i + 1>:\<close> and
  has one indented \<open>key: value\<close> line per field of record \<open>i\<close> in the record's own order; the
  omission line follows if and only if \<open>L > C\<close> and states the count \<open>L - C\<close>. The headings
  and the count then have a text. (For \<open>L = 0\<close> the output is the fixed message.) If a field
  value of the first \<open>C\<close> records has no text, as an \<open>int\<close> of more than 4300 digits has
  none, \<open>format_records\<close> raises and returns nothing.
\<close>

theorem format_records_blocks:
  "(0 \<le> cap \<and> rs \<noteq> [] \<and> has_text (str_int (int (length rs))) \<and>
    (\<forall>r \<in> set (take (nat cap) rs). \<forall>kv \<in> set r. has_text (py_str repr (snd kv))) \<longrightarrow>
      format_records repr (VList (map VDict rs)) cap =
        Inr (join ''\<newline>'' (map (record_block repr) (enumerate 0 (take (nat cap) rs))) @
             (if int (length rs) > cap
              then ''\<newline>... and '' @ text_of (str_int (int (length rs) - cap)) @
                   '' more records''
              else []))) \<and>
   (0 \<le> cap \<and> rs = [] \<longrightarrow>
      format_records repr (VList (map VDict rs)) cap = Inr ''No records found.'') \<and>
   (0 \<le> cap \<longrightarrow>
      length (map (record_block repr) (enumerate 0 (take (nat cap) rs))) =
        min (length rs) (nat cap)) \<and>
   (\<forall>i < min (length rs) (nat cap).
      map (record_block repr) (enumerate 0 (take (nat cap) rs)) ! i =
        ''Record '' @ text_of (str_int (int i + 1)) @ '':\<newline>'' @
        concat (map (\<lambda>kv. ''  '' @ fst kv @ '': '' @ text_of (py_str repr (snd kv)) @ ''\<newline>'')
                  (rs ! i))) \<and>
   (has_text (str_int (int (length rs))) \<longrightarrow>
      (\<forall>i < length rs. has_text (str_int (int i + 1)))) \<and>
   (has_text (str_int (int (length rs))) \<and> 0 \<le> cap \<and> cap < int (length rs) \<longrightarrow>
      has_text (str_int (int (length rs) - cap))) \<and>
   (0 \<le> cap \<and>
    (\<exists>r \<in> set (take (nat cap) rs). \<exists>kv \<in> set r. \<not> has_text (py_str repr (snd kv))) \<longrightarrow>
      (\<exists>e. format_records repr (VList (map VDict rs)) cap = Inl e)) \<and>
   py_str repr (VInt (10 ^ int_max_str_digits)) = Inl ValueError"
proof (intro conjI impI allI)
  assume h: "0 \<le> cap \<and> rs \<noteq> [] \<and> has_text (str_int (int (length rs))) \<and>
    (\<forall>r \<in> set (take (nat cap) rs). \<forall>kv \<in> set r. has_text (py_str repr (snd kv)))"
  then have slice: "take (nat cap) (map VDict rs) = map VDict (take (nat cap) rs)"
    by (simp add: take_map)
  have "has_text (str_int (int (0 + j) + 1))" if "j < length (take (nat cap) rs)" for j
  proof (rule has_text_str_int_mono)
    show "int (0 + j) + 1 \<le> int (length rs)"
      using that by simp
  qed (use h in simp_all)
  with h have loop: "format_loop repr 0 (map VDict (take (nat cap) rs)) [] =
      Inr ([] @ map (record_block repr) (enumerate 0 (take (nat cap) rs)))"
    by (intro format_loop_dicts) blast+
  have more: "str_int (int (length rs) - cap) = Inr (text_of (str_int (int (length rs) - cap)))"
    if "cap < int (length rs)"
  proof (rule has_textE, rule has_text_str_int_mono)
    show "int (length rs) - cap \<le> int (length rs)"
      using h by simp
  qed (use h that in simp_all)
  show "format_records repr (VList (map VDict rs)) cap =
        Inr (join ''\<newline>'' (map (record_block repr) (enumerate 0 (take (nat cap) rs))) @
             (if int (length rs) > cap
              then ''\<newline>... and '' @ text_of (str_int (int (length rs) - cap)) @
                   '' more records''
              else []))"
  proof (cases "cap < int (length rs)")
    case True
    with more obtain count where "str_int (int (length rs) - cap) = Inr count"
      by blast
    with True h slice loop show ?thesis
      by (simp add: format_records_def andthen_def slice_to_nonneg Let_def text_of_def)
  next
    case False
    with h slice loop show ?thesis
      by (simp add: format_records_def andthen_def slice_to_nonneg Let_def)
  qed
next
  assume "0 \<le> cap \<and> rs = []"
  then show "format_records repr (VList (map VDict rs)) cap = Inr ''No records found.''"
    by (simp add: format_records_def)
next
  show "length (map (record_block repr) (enumerate 0 (take (nat cap) rs))) =
        min (length rs) (nat cap)"
    by simp
next
  fix i assume "i < min (length rs) (nat cap)"
  then show "map (record_block repr) (enumerate 0 (take (nat cap) rs)) ! i =
        ''Record '' @ text_of (str_int (int i + 1)) @ '':\<newline>'' @
        concat (map (\<lambda>kv. ''  '' @ fst kv @ '': '' @ text_of (py_str repr (snd kv)) @ ''\<newline>'')
                  (rs ! i))"
    by (simp add: nth_enumerate_eq record_block_def)
next
  fix i assume "has_text (str_int (int (length rs)))" "i < length rs"
  then show "has_text (str_int (int i + 1))"
    by (intro has_text_str_int_mono [of "int i + 1" "int (length rs)"]) simp_all
next
  assume "has_text (str_int (int (length rs))) \<and> 0 \<le> cap \<and> cap < int (length rs)"
  then show "has_text (str_int (int (length rs) - cap))"
    by (intro has_text_str_int_mono [of "int (length rs) - cap" "int (length rs)"]) simp_all
next
  assume h: "0 \<le> cap \<and>
    (\<exists>r \<in> set (take (nat cap) rs). \<exists>kv \<in> set r. \<not> has_text (py_str repr (snd kv)))"
  then have rs: "rs \<noteq> []"
    by auto
  from h obtain e where "format_loop repr 0 (map VDict (take (nat cap) rs)) [] = Inl e"
    using format_loop_fails by blast
  with h rs show "\<exists>e. format_records repr (VList (map VDict rs)) cap = Inl e"
    by (simp add: format_records_def andthen_def slice_to_nonneg take_map)
next
  show "py_str repr (VInt (10 ^ int_max_str_digits)) = Inl ValueError"
    by (simp add: str_int_over_limit)
qed

theorem format_records_blocks_witness:
  "(0::int) \<le> 2 \<and>
   has_text (str_int (int (length [[(''a'', VInt 1)], [(''a'', VInt 2)], [(''a'', VInt 3)]]))) \<and>
   format_records (\<lambda>v. Inr [])
     (VList (map VDict [[(''a'', VInt 1)], [(''a'', VInt 2)], [(''a'', VInt 3)]])) 2 =
     Inr ''Record 1:\<newline>  a: 1\<newline>\<newline>Record 2:\<newline>  a: 2\<newline>\<newline>... and 1 more records'' \<and>
   format_records (\<lambda>v. Inr []) (VList (map VDict [])) 2 = Inr ''No records found.'' \<and>
   map (record_block (\<lambda>v. Inr []))
     (enumerate 0 (take (nat 2) [[(''a'', VInt 1)], [(''a'', VInt 2)], [(''a'', VInt 3)]])) ! 1 =
     ''Record 2:\<newline>  a: 2\<newline>'' \<and>
   (\<exists>e. format_records (\<lambda>v. Inr [])
      (VList (map VDict [[(''a'', VInt 1)], [(''a'', VInt (10 ^ int_max_str_digits))]])) 2 =
      Inl e)"
proof -
  have digits: "str_int 1 = Inr ''1''" "str_int 2 = Inr ''2''" "str_int 3 = Inr ''3''"
    by code_simp+
  have huge: "\<not> has_text (py_str (\<lambda>v. Inr []) (VInt (10 ^ int_max_str_digits)))"
    using format_records_blocks [where repr = "\<lambda>v. Inr []"]
    by (simp add: has_text_def)
  show ?thesis
    using format_records_blocks [where cap = 2 and repr = "\<lambda>v. Inr []"
        and rs = "[[(''a'', VInt 1)], [(''a'', VInt 2)], [(''a'', VInt 3)]]"]
      format_records_blocks [where cap = 2 and repr = "\<lambda>v. Inr []" and rs = "[]"]
      format_records_blocks [where cap = 2 and repr = "\<lambda>v. Inr []"
        and rs = "[[(''a'', VInt 1)], [(''a'', VInt (10 ^ int_max_str_digits))]]"]
      huge
    by (simp add: record_block_def enumerate_eq_zip digits has_text_def text_of_def upt_rec)
qed

subsection \<open>The float helpers\<close>

text \<open>
  The exponent helper brackets its argument between two powers of two, and a finite result
  of \<open>round_double\<close> lies within half a unit in the last place of its argument.
\<close>

lemma pow2_powi: "pow2 e = 2 powi e"
  by (cases "0 \<le> e") (simp_all add: pow2_def power_int_def inverse_eq_divide power_one_over)

lemma bitlen_bounds_rat:
  assumes "0 < x"
  shows "2 powi (bitlen x - 1) \<le> (of_int x :: rat)" "(of_int x :: rat) < 2 powi (bitlen x)"
proof -
  from assms have b: "2 ^ nat (bitlen x - 1) \<le> x" "x < 2 ^ nat (bitlen x)"
    using bitlen_bounds by blast+
  from assms have pos: "1 \<le> bitlen x"
    by (smt (verit) bitlen_eq_zero_iff bitlen_nonneg)
  have "(of_int (2 ^ nat (bitlen x - 1)) :: rat) \<le> of_int x"
    using b(1) of_int_le_iff by blast
  with pos show "2 powi (bitlen x - 1) \<le> (of_int x :: rat)"
    by (simp add: power_int_def)
  have "(of_int x :: rat) < of_int (2 ^ nat (bitlen x))"
    using b(2) of_int_less_iff by blast
  with pos show "(of_int x :: rat) < 2 powi (bitlen x)"
    by (simp add: power_int_def)
qed

lemma ilog2_bounds:
  assumes "0 < a"
  shows "pow2 (ilog2 a) \<le> a \<and> a < pow2 (ilog2 a + 1)"
proof -
  obtain p d where pd: "quotient_of a = (p, d)" by (cases "quotient_of a")
  then have d: "0 < d" and a: "a = of_int p / of_int d"
    using quotient_of_denom_pos quotient_of_div by blast+
  with assms have p: "0 < p"
    by (simp add: zero_less_divide_iff)
  define k where "k = bitlen p - bitlen d"
  note bp = bitlen_bounds_rat [OF p] and bd = bitlen_bounds_rat [OF d]
  have pos: "(0::rat) < 2 powi n" for n
    by simp
  have "a < 2 powi bitlen p / 2 powi (bitlen d - 1)"
    unfolding a using p d bp bd pos
    by (intro frac_less) simp_all
  also have "\<dots> = 2 powi (k + 1)"
    by (simp add: k_def power_int_diff [symmetric] algebra_simps)
  finally have upper: "a < pow2 (k + 1)"
    by (simp add: pow2_powi)
  have "2 powi (bitlen p - 1) / 2 powi bitlen d < a"
    unfolding a using p d bp bd pos
    by (intro frac_less2) simp_all
  moreover have "2 powi (bitlen p - 1) / 2 powi bitlen d = (2::rat) powi (k - 1)"
    by (simp add: k_def power_int_diff [symmetric] algebra_simps)
  ultimately have lower: "pow2 (k - 1) \<le> a"
    by (simp add: pow2_powi)
  show ?thesis
    using upper lower by (simp add: ilog2_def pd k_def [symmetric] Let_def not_le)
qed

lemma round_half_even_near: "\<bar>of_int (round_half_even x) - x\<bar> \<le> 1 / 2"
proof -
  have f: "of_int \<lfloor>x\<rfloor> \<le> x" "x < of_int \<lfloor>x\<rfloor> + 1"
    by linarith+
  show ?thesis
  proof (cases "x - of_int \<lfloor>x\<rfloor> < 1 / 2")
    case True
    with f show ?thesis by (simp add: round_half_even_def Let_def)
  next
    case False
    with f show ?thesis
      by (cases "1 / 2 < x - of_int \<lfloor>x\<rfloor>"; cases "even \<lfloor>x\<rfloor>")
        (simp_all add: round_half_even_def Let_def abs_if)
  qed
qed

lemma pow2_pos: "0 < pow2 e"
  by (simp add: pow2_def)

lemma round_double_near:
  assumes "round_double q = Finite v"
  shows "\<bar>v - q\<bar> \<le> pow2 (max (ilog2 \<bar>q\<bar> - 52) (- 1074)) / 2"
proof (cases "q = 0")
  case True
  with assms have "v = 0" by (simp add: round_double_def)
  with True show ?thesis using pow2_pos [of "max (ilog2 \<bar>q\<bar> - 52) (- 1074)"] by simp
next
  case False
  define e where "e = max (ilog2 \<bar>q\<bar> - 52) (- 1074)"
  define m where "m = round_half_even (\<bar>q\<bar> / pow2 e)"
  have v: "v = (if q < 0 then - 1 else 1) * of_int m * pow2 e"
    using assms False
    by (auto simp: round_double_def Let_def e_def [symmetric] m_def [symmetric]
        split: if_splits)
  have "\<bar>of_int m - \<bar>q\<bar> / pow2 e\<bar> \<le> 1 / 2"
    unfolding m_def by (rule round_half_even_near)
  then have "\<bar>of_int m - \<bar>q\<bar> / pow2 e\<bar> * pow2 e \<le> 1 / 2 * pow2 e"
    using pow2_pos [of e] by (intro mult_right_mono) simp_all
  moreover have "\<bar>of_int m - \<bar>q\<bar> / pow2 e\<bar> * pow2 e = \<bar>of_int m * pow2 e - \<bar>q\<bar>\<bar>"
  proof -
    have "\<bar>of_int m - \<bar>q\<bar> / pow2 e\<bar> * pow2 e = \<bar>(of_int m - \<bar>q\<bar> / pow2 e) * pow2 e\<bar>"
      using pow2_pos [of e] by (simp add: abs_mult)
    also have "(of_int m - \<bar>q\<bar> / pow2 e) * pow2 e = of_int m * pow2 e - \<bar>q\<bar>"
      using pow2_pos [of e] by (simp add: left_diff_distrib)
    finally show ?thesis .
  qed
  ultimately have "\<bar>of_int m * pow2 e - \<bar>q\<bar>\<bar> \<le> pow2 e / 2"
    by simp
  then show ?thesis
    unfolding e_def [symmetric] v by (auto simp: abs_if split: if_splits)
qed






subsection \<open>Rendering of prices and emissions\<close>








subsection \<open>Absent fields of a production record\<close>












end
